theory Spec2Isabelle
  imports Complex_Main
begin

section \<open>Numbers, points and the editor's global state\<close>

text \<open>
  The floor-plan editor (\<^verbatim>\<open>floor-plan-editor-v2.js\<close>) computes with JavaScript numbers.
  They are modelled as exact reals: rounding error of the IEEE doubles, \<^verbatim>\<open>NaN\<close> and the
  infinities are outside the model. Where a function divides by a number computed from
  its input, or takes the minimum or maximum of a list that could be empty, the model
  makes the outcome that is not a finite number an explicit value of type \<open>js_error\<close>.
\<close>

datatype js_error = NonFinite | TypeError

record point =
  x :: real
  y :: real

text \<open>\<^verbatim>\<open>Math.round\<close>: the nearest integer, a tie going towards plus infinity.\<close>

definition Math_round :: "real \<Rightarrow> real" where
  "Math_round v = of_int \<lfloor>v + 1 / 2\<rfloor>"

text \<open>
  A room is a JavaScript object holding either \<^verbatim>\<open>x, y, width, height\<close> (drawn with the
  rectangle tool) or \<^verbatim>\<open>points, bbox\<close> (drawn with the line tool), next to the fields both
  kinds share. The two layouts are the constructors of \<open>geometry\<close>, their arguments
  in the order written here.
\<close>

record bbox =
  minX :: real
  maxX :: real
  minY :: real
  maxY :: real
  centerX :: real
  centerY :: real
  bbox_width :: real
  bbox_height :: real

datatype geometry =
  Rectangle real real real real
| Polygon "point list" bbox

record room =
  room_id :: string
  shape :: geometry
  name :: string
  status :: string
  sensorData :: "(string \<times> real) list option"
  deviceId :: "string option"

text \<open>
  The module-level variables of the editor, the two variables \<^verbatim>\<open>roomStartPoint\<close> and
  \<^verbatim>\<open>tempRect\<close> that \<^verbatim>\<open>setupRoomDrawing\<close> closes over, the text of the size label that
  \<^verbatim>\<open>updateRoomMeasurement\<close> draws and \<^verbatim>\<open>removeRoomMeasurement\<close> deletes, and the log of
  the calls of \<^verbatim>\<open>showToast\<close> (message and type). The temporary rectangle is kept as its
  four attributes. The layers of the drawing surface are taken to exist; its other
  elements are not modelled.
\<close>

record editor =
  isDrawingMode :: bool
  drawingTool :: string
  rooms :: "room list"
  gridSize :: real
  snapToGrid :: bool
  linePoints :: "point list"
  lineStartPoint :: "point option"
  roomStartPoint :: "point option"
  tempRect :: "(real \<times> real \<times> real \<times> real) option"
  roomMeasurementText :: "string option"
  toasts :: "(string \<times> string) list"

section \<open>Grid snapping and measurement formatting\<close>

definition snapToGridCoordinate :: "editor \<Rightarrow> real \<Rightarrow> real" where
  "snapToGridCoordinate s v =
     (if \<not> snapToGrid s then v else Math_round (v / gridSize s) * gridSize s)"

definition pixelsPerMeter :: real where
  "pixelsPerMeter = 50"

definition metersPerPixel :: real where
  "metersPerPixel = 1 / pixelsPerMeter"

definition pixelsToMeters :: "real \<Rightarrow> real" where
  "pixelsToMeters pixels = pixels * metersPerPixel"

text \<open>
  A template literal turns a number into its decimal numeral: an optional minus sign, the
  integer part, and the fractional digits when there are any, without trailing zeros. The
  numbers printed by the editor are multiples of \<open>1/100\<close>, for which the numeral is exact;
  the model stops after 20 fractional digits (and knows no exponent notation).
\<close>

definition digit :: "nat \<Rightarrow> char" where
  "digit n = ''0123456789'' ! n"

fun string_of_nat :: "nat \<Rightarrow> string" where
  "string_of_nat n =
     (if n < 10 then [digit n] else string_of_nat (n div 10) @ [digit (n mod 10)])"

declare string_of_nat.simps [simp del]

fun fraction_digits :: "nat \<Rightarrow> real \<Rightarrow> string" where
  "fraction_digits 0 f = []"
| "fraction_digits (Suc n) f =
     (if f = 0 then []
      else digit (nat \<lfloor>f * 10\<rfloor>) # fraction_digits n (f * 10 - of_int \<lfloor>f * 10\<rfloor>))"

definition Number_toString :: "real \<Rightarrow> string" where
  "Number_toString v =
     (if v < 0 then ''-'' else []) @ string_of_nat (nat \<lfloor>\<bar>v\<bar>\<rfloor>)
     @ (if frac \<bar>v\<bar> = 0 then [] else ''.'' @ fraction_digits 20 (frac \<bar>v\<bar>))"

definition formatMeasurement :: "real \<Rightarrow> string" where
  "formatMeasurement meters =
     (if meters < 1
      then (let cm = Math_round (meters * 100 * 10) / 10 in Number_toString cm @ '' cm'')
      else (let m = Math_round (meters * 100) / 100 in Number_toString m @ '' m''))"

text \<open>
  The text that \<^verbatim>\<open>updateRoomMeasurement\<close> computes for a rectangle of the given extent.
  The multiplication sign is the code unit U+00D7.
\<close>

definition measurementText :: "real \<Rightarrow> real \<Rightarrow> string" where
  "measurementText w h =
     (let widthMeters = pixelsToMeters w; heightMeters = pixelsToMeters h
      in formatMeasurement widthMeters @ '' '' @ [CHR 0xD7] @ '' ''
         @ formatMeasurement heightMeters)"

section \<open>Distances and the point-in-polygon test\<close>

definition calculateDistance :: "real \<Rightarrow> real \<Rightarrow> real \<Rightarrow> real \<Rightarrow> real" where
  "calculateDistance x1 y1 x2 y2 =
     (let dx = x2 - x1; dy = y2 - y1 in sqrt (dx * dx + dy * dy))"

text \<open>The callers of \<^verbatim>\<open>isPointClose\<close> leave the threshold at its default, 15.\<close>

definition isPointClose :: "real \<Rightarrow> real \<Rightarrow> real \<Rightarrow> real \<Rightarrow> real \<Rightarrow> bool" where
  "isPointClose x1 y1 x2 y2 threshold = (calculateDistance x1 y1 x2 y2 < threshold)"

text \<open>
  The loop of \<^verbatim>\<open>isPointInPolygon\<close> visits the points in order; \<open>p_j\<close> is the point
  before \<open>p_i\<close>, the last point of the list in the first round. The conjunction of the
  source evaluates the quotient only when the two ordinates lie on different sides of
  \<open>py\<close>, so its divisor is never zero there.
\<close>

fun isPointInPolygon_loop :: "real \<Rightarrow> real \<Rightarrow> point list \<Rightarrow> point \<Rightarrow> bool \<Rightarrow> bool" where
  "isPointInPolygon_loop px py [] p_j inside = inside"
| "isPointInPolygon_loop px py (p_i # rest) p_j inside =
     (let xi = x p_i; yi = y p_i; xj = x p_j; yj = y p_j;
          intersect = ((yi > py) \<noteq> (yj > py)
                       \<and> px < (xj - xi) * (py - yi) / (yj - yi) + xi)
      in isPointInPolygon_loop px py rest p_i (if intersect then \<not> inside else inside))"

definition isPointInPolygon :: "real \<Rightarrow> real \<Rightarrow> point list \<Rightarrow> bool" where
  "isPointInPolygon px py points =
     (case points of [] \<Rightarrow> False
      | _ # _ \<Rightarrow> isPointInPolygon_loop px py points (last points) False)"

section \<open>The centroid of a polygon\<close>

text \<open>
  A quotient whose divisor is zero is not a finite number: the model returns
  \<open>NonFinite\<close> for it. \<^verbatim>\<open>Math.min\<close> and \<^verbatim>\<open>Math.max\<close> of no arguments are the
  infinities, likewise.
\<close>

definition js_divide :: "real \<Rightarrow> real \<Rightarrow> js_error + real" where
  "js_divide a b = (if b = 0 then Inl NonFinite else Inr (a / b))"

definition Math_min :: "real list \<Rightarrow> js_error + real" where
  "Math_min vs = (case vs of [] \<Rightarrow> Inl NonFinite | v # rest \<Rightarrow> Inr (fold min rest v))"

definition Math_max :: "real list \<Rightarrow> js_error + real" where
  "Math_max vs = (case vs of [] \<Rightarrow> Inl NonFinite | v # rest \<Rightarrow> Inr (fold max rest v))"

text \<open>The sums over all points and their division by the number of points.\<close>

definition average :: "point list \<Rightarrow> js_error + point" where
  "average points =
     (let sumX = fold (\<lambda>p acc. acc + x p) points 0;
          sumY = fold (\<lambda>p acc. acc + y p) points 0
      in case js_divide sumX (real (length points)) of
           Inl e \<Rightarrow> Inl e
         | Inr ax \<Rightarrow>
             (case js_divide sumY (real (length points)) of
                Inl e \<Rightarrow> Inl e
              | Inr ay \<Rightarrow> Inr \<lparr>x = ax, y = ay\<rparr>))"

text \<open>The shoelace loop over the edges of the closed ring: area, then the two moments.\<close>

fun shoelace_loop :: "point list \<Rightarrow> real \<times> real \<times> real \<Rightarrow> real \<times> real \<times> real" where
  "shoelace_loop (p1 # p2 # rest) (area, centroidX, centroidY) =
     (let cross = x p1 * y p2 - x p2 * y p1
      in shoelace_loop (p2 # rest)
           (area + cross, centroidX + (x p1 + x p2) * cross, centroidY + (y p1 + y p2) * cross))"
| "shoelace_loop [p1] acc = acc"
| "shoelace_loop [] acc = acc"

text \<open>The bounding box of a list of points: \<open>(minX, maxX, minY, maxY)\<close>.\<close>

definition bounding_box :: "point list \<Rightarrow> js_error + real \<times> real \<times> real \<times> real" where
  "bounding_box points =
     (let xs = map x points; ys = map y points
      in case (Math_min xs, Math_max xs, Math_min ys, Math_max ys) of
           (Inr xmin, Inr xmax, Inr ymin, Inr ymax) \<Rightarrow> Inr (xmin, xmax, ymin, ymax)
         | _ \<Rightarrow> Inl NonFinite)"

text \<open>
  The samples on the line from the centre of the bounding box to the centroid, at
  \<open>t = 0, 0.1, \<dots>\<close> while \<open>t \<le> 1\<close>: the first one inside the polygon, if any. The
  loop runs eleven times, here as with doubles, where the sums of \<open>0.1\<close> are rounded and
  the last \<open>t\<close> falls just short of 1.
\<close>

function sample_loop ::
  "point list \<Rightarrow> real \<Rightarrow> real \<Rightarrow> real \<Rightarrow> real \<Rightarrow> real \<Rightarrow> point option" where
  "sample_loop points bboxCenterX bboxCenterY centroidX centroidY t =
     (if t \<le> 1
      then (let testX = bboxCenterX + (centroidX - bboxCenterX) * t;
                testY = bboxCenterY + (centroidY - bboxCenterY) * t
            in if isPointInPolygon testX testY points then Some \<lparr>x = testX, y = testY\<rparr>
               else sample_loop points bboxCenterX bboxCenterY centroidX centroidY (t + 1 / 10))
      else None)"
  by pat_completeness auto
termination
proof (relation "measure (\<lambda>(points, bx, by', cx, cy, t). nat \<lceil>(1 - t) * 10 + 1\<rceil>)")
  show "wf (measure (\<lambda>(points :: point list, bx :: real, by' :: real, cx :: real, cy :: real,
                       t :: real). nat \<lceil>(1 - t) * 10 + 1\<rceil>))"
    by simp
next
  fix points :: "point list" and bboxCenterX bboxCenterY centroidX centroidY t testX testY :: real
  assume t: "t \<le> 1"
  have "(1 - (t + 1 / 10)) * 10 + 1 = ((1 - t) * 10 + 1) - 1"
    by (simp add: algebra_simps)
  then have "\<lceil>(1 - (t + 1 / 10)) * 10 + 1\<rceil> = \<lceil>(1 - t) * 10 + 1\<rceil> - 1"
    by (simp only: ceiling_diff_one)
  moreover have "0 < \<lceil>(1 - t) * 10 + 1\<rceil>"
    using t by (simp add: zero_less_ceiling)
  ultimately show "((points, bboxCenterX, bboxCenterY, centroidX, centroidY, t + 1 / 10),
              (points, bboxCenterX, bboxCenterY, centroidX, centroidY, t))
             \<in> measure (\<lambda>(points, bx, by', cx, cy, t). nat \<lceil>(1 - t) * 10 + 1\<rceil>)"
    by simp
qed

declare sample_loop.simps [simp del]

text \<open>
  The midpoints of the edges, the edge after the last point leading back to the first:
  the first midpoint inside the polygon, if any.
\<close>

fun midpoint_loop :: "point list \<Rightarrow> point list \<Rightarrow> point option" where
  "midpoint_loop points [] = None"
| "midpoint_loop points (p1 # rest) =
     (let p2 = (case rest of [] \<Rightarrow> hd points | q # _ \<Rightarrow> q);
          midX = (x p1 + x p2) / 2;
          midY = (y p1 + y p2) / 2
      in if isPointInPolygon midX midY points then Some \<lparr>x = midX, y = midY\<rparr>
         else midpoint_loop points rest)"

text \<open>
  The search that replaces a centroid lying outside the polygon: the samples, the centre
  of the bounding box, the midpoints, and the centroid itself when all of them fail.
\<close>

definition interior_search :: "point list \<Rightarrow> real \<Rightarrow> real \<Rightarrow> js_error + point" where
  "interior_search points centroidX centroidY =
     (case bounding_box points of
        Inl e \<Rightarrow> Inl e
      | Inr (xmin, xmax, ymin, ymax) \<Rightarrow>
          (let bboxCenterX = (xmin + xmax) / 2;
               bboxCenterY = (ymin + ymax) / 2
           in case sample_loop points bboxCenterX bboxCenterY centroidX centroidY 0 of
                Some p \<Rightarrow> Inr p
              | None \<Rightarrow>
                  if isPointInPolygon bboxCenterX bboxCenterY points
                  then Inr \<lparr>x = bboxCenterX, y = bboxCenterY\<rparr>
                  else (case midpoint_loop points points of
                          Some p \<Rightarrow> Inr p
                        | None \<Rightarrow> Inr \<lparr>x = centroidX, y = centroidY\<rparr>)))"

text \<open>
  The ring that the shoelace loop runs over: the points, followed by the first point
  unless the last point equals it.
\<close>

definition closedPoints :: "point list \<Rightarrow> point list" where
  "closedPoints points =
     (if x (hd points) \<noteq> x (last points) \<or> y (hd points) \<noteq> y (last points)
      then points @ [hd points] else points)"

text \<open>The argument is \<open>None\<close> when the caller passes \<^verbatim>\<open>null\<close> or nothing.\<close>

definition calculatePolygonCentroid :: "point list option \<Rightarrow> js_error + point" where
  "calculatePolygonCentroid arg =
     (case arg of
        None \<Rightarrow> Inr \<lparr>x = 0, y = 0\<rparr>
      | Some points \<Rightarrow>
          if length points < 3
          then (if length points > 0 then average points else Inr \<lparr>x = 0, y = 0\<rparr>)
          else (case shoelace_loop (closedPoints points) (0, 0, 0) of
                  (area2, sumX, sumY) \<Rightarrow>
                    (let area = area2 / 2
                     in if \<bar>area\<bar> < 0.001 then average points
                        else (case js_divide sumX (6 * area) of
                                Inl e \<Rightarrow> Inl e
                              | Inr centroidX \<Rightarrow>
                                  (case js_divide sumY (6 * area) of
                                     Inl e \<Rightarrow> Inl e
                                   | Inr centroidY \<Rightarrow>
                                       if \<not> isPointInPolygon centroidX centroidY points
                                       then interior_search points centroidX centroidY
                                       else Inr \<lparr>x = centroidX, y = centroidY\<rparr>)))))"

section \<open>The drawing handlers\<close>

text \<open>
  \<^verbatim>\<open>completeLineRoom\<close> closes the polygon drawn with the line tool. \<open>now\<close> is the value
  of \<^verbatim>\<open>Date.now()\<close>, from which the room's id is made. Rendering the room and opening
  the dialog that asks for its name do not touch the variables modelled here.
\<close>

definition completeLineRoom :: "nat \<Rightarrow> editor \<Rightarrow> js_error + editor" where
  "completeLineRoom now s =
     (if length (linePoints s) < 3
      then Inr (s\<lparr>toasts := toasts s @ [(''Need at least 3 points to create a room'', ''warning'')]\<rparr>)
      else (case bounding_box (linePoints s) of
              Inl e \<Rightarrow> Inl e
            | Inr (xmin, xmax, ymin, ymax) \<Rightarrow>
                (let roomId = ''room_'' @ string_of_nat now;
                     newRoom =
                       \<lparr>room_id = roomId,
                        shape = Polygon (map (\<lambda>p. \<lparr>x = x p, y = y p\<rparr>) (linePoints s))
                                  \<lparr>minX = xmin, maxX = xmax, minY = ymin, maxY = ymax,
                                   centerX = (xmin + xmax) / 2, centerY = (ymin + ymax) / 2,
                                   bbox_width = xmax - xmin, bbox_height = ymax - ymin\<rparr>,
                        name = ''New Room'', status = ''good'', sensorData = None,
                        deviceId = None\<rparr>
                 in Inr (s\<lparr>rooms := rooms s @ [newRoom], linePoints := [],
                           lineStartPoint := None\<rparr>))))"

text \<open>
  The three pointer handlers that \<^verbatim>\<open>setupRoomDrawing\<close> installs. \<open>ex\<close> and \<open>ey\<close> are
  the coordinates that \<^verbatim>\<open>getSVGCoordinates\<close> computes from the event. Reading a field of
  \<^verbatim>\<open>lineStartPoint\<close> while it is \<^verbatim>\<open>null\<close> throws a \<^verbatim>\<open>TypeError\<close>.
\<close>

definition mousedown :: "nat \<Rightarrow> real \<Rightarrow> real \<Rightarrow> editor \<Rightarrow> js_error + editor" where
  "mousedown now ex ey s =
     (if \<not> isDrawingMode s then Inr s
      else (let px = snapToGridCoordinate s ex; py = snapToGridCoordinate s ey
            in if drawingTool s = ''rectangle''
               then (if roomStartPoint s = None
                     then Inr (s\<lparr>roomStartPoint := Some \<lparr>x = px, y = py\<rparr>,
                                 tempRect := Some (px, py, 0, 0)\<rparr>)
                     else Inr s)
               else if drawingTool s = ''line''
               then (if length (linePoints s) = 0
                     then Inr (s\<lparr>linePoints := [\<lparr>x = px, y = py\<rparr>],
                                 lineStartPoint := Some \<lparr>x = px, y = py\<rparr>\<rparr>)
                     else (case lineStartPoint s of
                             None \<Rightarrow> Inl TypeError
                           | Some start \<Rightarrow>
                               if isPointClose px py (x start) (y start) 15
                               then completeLineRoom now s
                               else (let newPoint = \<lparr>x = px, y = py\<rparr>;
                                         lastPoint = last (linePoints s)
                                     in if length (linePoints s) > 0
                                           \<and> calculateDistance (x lastPoint) (y lastPoint) px py < 15
                                        then Inr s
                                        else Inr (s\<lparr>linePoints := linePoints s @ [newPoint]\<rparr>))))
               else Inr s))"

definition mousemove :: "real \<Rightarrow> real \<Rightarrow> editor \<Rightarrow> editor" where
  "mousemove ex ey s =
     (if \<not> isDrawingMode s then s
      else (let px = snapToGridCoordinate s ex; py = snapToGridCoordinate s ey
            in if drawingTool s = ''rectangle'' \<and> roomStartPoint s \<noteq> None \<and> tempRect s \<noteq> None
               then (case roomStartPoint s of
                       None \<Rightarrow> s
                     | Some start \<Rightarrow>
                         (let width = \<bar>px - x start\<bar>;
                              height = \<bar>py - y start\<bar>;
                              rectX = min (x start) px;
                              rectY = min (y start) py
                          in s\<lparr>tempRect := Some (rectX, rectY, width, height),
                               roomMeasurementText := Some (measurementText width height)\<rparr>))
               else s))"

definition mouseup :: "nat \<Rightarrow> real \<Rightarrow> real \<Rightarrow> editor \<Rightarrow> editor" where
  "mouseup now ex ey s =
     (if \<not> isDrawingMode s then s
      else if drawingTool s = ''rectangle'' \<and> roomStartPoint s \<noteq> None \<and> tempRect s \<noteq> None
      then (case roomStartPoint s of
              None \<Rightarrow> s
            | Some start \<Rightarrow>
                (let px = snapToGridCoordinate s ex;
                     py = snapToGridCoordinate s ey;
                     width = \<bar>px - x start\<bar>;
                     height = \<bar>py - y start\<bar>
                 in if width > 20 \<and> height > 20
                    then (let roomId = ''room_'' @ string_of_nat now;
                              newRoom =
                                \<lparr>room_id = roomId,
                                 shape = Rectangle (min (x start) px) (min (y start) py) width height,
                                 name = ''New Room'', status = ''good'', sensorData = None,
                                 deviceId = None\<rparr>
                          in s\<lparr>rooms := rooms s @ [newRoom], roomMeasurementText := None,
                               tempRect := None, roomStartPoint := None\<rparr>)
                    else s\<lparr>roomMeasurementText := None, tempRect := None,
                           roomStartPoint := None\<rparr>))
      else s)"

section \<open>What the centroid is compared with\<close>

text \<open>
  The quantities of the specification, written as sums over the edges of the polygon
  rather than as the loop computes them: the signed area by the shoelace formula, the two
  moment sums, the area-weighted centroid, and the arithmetic mean of the points. The
  edges of the polygon lead from each point to the next and from the last point back to
  the first, whether or not the list repeats its first point at the end.
\<close>

definition cross :: "point \<Rightarrow> point \<Rightarrow> real" where
  "cross p q = x p * y q - x q * y p"

definition polygon_edges :: "point list \<Rightarrow> (point \<times> point) list" where
  "polygon_edges points = zip points (tl points @ [hd points])"

definition signedArea :: "point list \<Rightarrow> real" where
  "signedArea points = (\<Sum>(p, q) \<leftarrow> polygon_edges points. cross p q) / 2"

definition momentX :: "point list \<Rightarrow> real" where
  "momentX points = (\<Sum>(p, q) \<leftarrow> polygon_edges points. (x p + x q) * cross p q)"

definition momentY :: "point list \<Rightarrow> real" where
  "momentY points = (\<Sum>(p, q) \<leftarrow> polygon_edges points. (y p + y q) * cross p q)"

definition area_weighted_centroid :: "point list \<Rightarrow> point" where
  "area_weighted_centroid points =
     \<lparr>x = momentX points / (6 * signedArea points),
      y = momentY points / (6 * signedArea points)\<rparr>"

definition arithmetic_mean :: "point list \<Rightarrow> point" where
  "arithmetic_mean points =
     \<lparr>x = sum_list (map x points) / real (length points),
      y = sum_list (map y points) / real (length points)\<rparr>"

text \<open>
  The points that the interior search tries, in the order it tries them: the eleven
  samples between the centre of the bounding box and the centroid, that centre once more,
  and the midpoint of every edge.
\<close>

definition bbox_center :: "point list \<Rightarrow> point" where
  "bbox_center points =
     \<lparr>x = (Min (set (map x points)) + Max (set (map x points))) / 2,
      y = (Min (set (map y points)) + Max (set (map y points))) / 2\<rparr>"

definition sample_points :: "point \<Rightarrow> point \<Rightarrow> point list" where
  "sample_points b c =
     map (\<lambda>k. \<lparr>x = x b + (x c - x b) * (real k / 10), y = y b + (y c - y b) * (real k / 10)\<rparr>)
       [0..<11]"

definition edge_midpoints :: "point list \<Rightarrow> point list" where
  "edge_midpoints points =
     map (\<lambda>(p, q). \<lparr>x = (x p + x q) / 2, y = (y p + y q) / 2\<rparr>) (polygon_edges points)"

definition search_candidates :: "point list \<Rightarrow> point \<Rightarrow> point list" where
  "search_candidates points c =
     sample_points (bbox_center points) c @ [bbox_center points] @ edge_midpoints points"



text \<open>
  Whether the edge from \<open>p_j\<close> to \<open>p_i\<close> counts as crossed by the ray from \<open>(px, py)\<close>:
  the test that one round of the loop of \<open>isPointInPolygon\<close> makes.
\<close>

definition ray_crosses :: "real \<Rightarrow> real \<Rightarrow> point \<Rightarrow> point \<Rightarrow> bool" where
  "ray_crosses px py p_i p_j =
     ((y p_i > py) \<noteq> (y p_j > py)
      \<and> px < (x p_j - x p_i) * (py - y p_i) / (y p_j - y p_i) + x p_i)"






definition spans :: "point \<times> point \<Rightarrow> real \<Rightarrow> bool" where
  "spans e c = ((y (snd e) > c) \<noteq> (y (fst e) > c))"


definition edge_crossed :: "real \<Rightarrow> real \<Rightarrow> point \<times> point \<Rightarrow> bool" where
  "edge_crossed px py e = ray_crosses px py (snd e) (fst e)"




text \<open>Polygons used as examples.\<close>

definition triangle :: "point list" where
  "triangle = [\<lparr>x = 0, y = 0\<rparr>, \<lparr>x = 100, y = 0\<rparr>, \<lparr>x = 100, y = 100\<rparr>]"

definition offset_triangle :: "point list" where
  "offset_triangle = [\<lparr>x = 20, y = 0\<rparr>, \<lparr>x = 40, y = 0\<rparr>, \<lparr>x = 40, y = 20\<rparr>]"

definition sliver :: "point list" where
  "sliver = [\<lparr>x = 0, y = 0\<rparr>, \<lparr>x = 1, y = 0\<rparr>, \<lparr>x = 0, y = 1 / 1000\<rparr>]"



text \<open>The values the module-level variables are initialised with.\<close>

definition initial_editor :: editor where
  "initial_editor =
     \<lparr>isDrawingMode = False, drawingTool = ''rectangle'', rooms = [], gridSize = 20,
      snapToGrid = True, linePoints = [], lineStartPoint = None, roomStartPoint = None,
      tempRect = None, roomMeasurementText = None, toasts = []\<rparr>"

text \<open>
  States used as examples below: the editor after drawing mode is switched on; the same
  after the pointer is pressed at \<open>(100, 100)\<close> with the rectangle tool; the line tool
  with two points placed.
\<close>

definition drawing_editor :: editor where
  "drawing_editor = initial_editor\<lparr>isDrawingMode := True\<rparr>"

definition pressed_editor :: editor where
  "pressed_editor =
     drawing_editor\<lparr>roomStartPoint := Some \<lparr>x = 100, y = 100\<rparr>,
                     tempRect := Some (100, 100, 0, 0)\<rparr>"

definition two_point_editor :: editor where
  "two_point_editor =
     initial_editor\<lparr>isDrawingMode := True, drawingTool := ''line'',
                      linePoints := [\<lparr>x = 0, y = 0\<rparr>, \<lparr>x = 100, y = 0\<rparr>],
                      lineStartPoint := Some \<lparr>x = 0, y = 0\<rparr>\<rparr>"

text \<open>
  A point is on the grid of spacing \<open>g\<close> when both coordinates are integer multiples of
  \<open>g\<close>. The editor never changes \<open>snapToGrid\<close>, which starts as true, and sets \<open>gridSize\<close>
  to 10 or to 20 only; every point it places is snapped, hence on the grid of spacing 10.
\<close>

definition on_grid :: "real \<Rightarrow> point \<Rightarrow> bool" where
  "on_grid g p = (frac (x p / g) = 0 \<and> frac (y p / g) = 0)"

definition grid_state :: "editor \<Rightarrow> bool" where
  "grid_state s =
     (snapToGrid s \<and> (gridSize s = 10 \<or> gridSize s = 20) \<and> list_all (on_grid 10) (linePoints s))"

section \<open>Properties\<close>

subsection \<open>Grid snapping\<close>

lemma Math_round_of_int: "Math_round (of_int k) = of_int k"
proof -
  have "\<lfloor>(of_int k :: real) + 1 / 2\<rfloor> = k" by linarith
  then show ?thesis by (simp add: Math_round_def)
qed

lemma Math_round_near: "\<bar>Math_round v - v\<bar> \<le> 1 / 2"
  unfolding Math_round_def by linarith

text \<open>
  C7. With grid size \<open>g > 0\<close> and snapping enabled, \<open>snapToGridCoordinate\<close> returns an
  integer multiple of \<open>g\<close> at distance at most \<open>g / 2\<close> from its argument, and snapping a
  snapped value changes nothing. With snapping disabled it is the identity.
\<close>

theorem snapToGridCoordinate_nearest_idempotent:
  assumes "0 < gridSize s"
  shows "if snapToGrid s
         then (\<exists>k :: int. snapToGridCoordinate s v = of_int k * gridSize s)
            \<and> \<bar>snapToGridCoordinate s v - v\<bar> \<le> gridSize s / 2
            \<and> snapToGridCoordinate s (snapToGridCoordinate s v) = snapToGridCoordinate s v
         else snapToGridCoordinate s v = v"
proof (cases "snapToGrid s")
  case False
  then show ?thesis by (simp add: snapToGridCoordinate_def)
next
  case True
  define g where "g = gridSize s"
  have g: "0 < g" using assms by (simp add: g_def)
  have snap: "\<And>w. snapToGridCoordinate s w = Math_round (w / g) * g"
    using True by (simp add: snapToGridCoordinate_def g_def)
  have mult: "\<exists>k :: int. snapToGridCoordinate s v = of_int k * g"
    unfolding snap Math_round_def by blast
  have "\<bar>Math_round (v / g) - v / g\<bar> * g \<le> (1 / 2) * g"
    using Math_round_near [of "v / g"] g by (intro mult_right_mono) simp_all
  moreover have "\<bar>Math_round (v / g) - v / g\<bar> * g = \<bar>Math_round (v / g) * g - v\<bar>"
  proof -
    have "Math_round (v / g) * g - v = (Math_round (v / g) - v / g) * g"
      using g by (simp add: left_diff_distrib)
    then show ?thesis using g by (simp add: abs_mult)
  qed
  ultimately have near: "\<bar>snapToGridCoordinate s v - v\<bar> \<le> g / 2"
    by (simp add: snap)
  have idem: "snapToGridCoordinate s (snapToGridCoordinate s v) = snapToGridCoordinate s v"
  proof -
    have "Math_round (v / g) * g / g = Math_round (v / g)" using g by simp
    moreover have "Math_round (Math_round (v / g)) = Math_round (v / g)"
      unfolding Math_round_def [of "v / g"] by (rule Math_round_of_int)
    ultimately show ?thesis by (simp add: snap)
  qed
  from True mult near idem show ?thesis by (simp add: g_def)
qed

theorem snapToGridCoordinate_nearest_idempotent_witness:
  "0 < gridSize initial_editor \<and> snapToGrid initial_editor
   \<and> (\<exists>k :: int. snapToGridCoordinate initial_editor 27 = of_int k * gridSize initial_editor)
   \<and> \<bar>snapToGridCoordinate initial_editor 27 - 27\<bar> \<le> gridSize initial_editor / 2
   \<and> snapToGridCoordinate initial_editor (snapToGridCoordinate initial_editor 27)
       = snapToGridCoordinate initial_editor 27"
proof -
  have h: "0 < gridSize initial_editor" by (simp add: initial_editor_def)
  have t: "snapToGrid initial_editor" by (simp add: initial_editor_def)
  from snapToGridCoordinate_nearest_idempotent [OF h, of 27] t h show ?thesis by simp
qed

subsection \<open>Measurement formatting\<close>

lemma formatMeasurement_half: "formatMeasurement 0.5 = ''50 cm''"
  by code_simp

lemma formatMeasurement_2345: "formatMeasurement 2.345 = ''2.35 m''"
  by code_simp

lemma formatMeasurement_0999: "formatMeasurement 0.999 = ''99.9 cm''"
  by code_simp

lemma formatMeasurement_cm:
  assumes "meters < 1"
  shows "\<exists>k :: int. formatMeasurement meters = Number_toString (of_int k / 10) @ '' cm''
           \<and> \<bar>of_int k / 10 - meters * 100\<bar> \<le> 1 / 20"
proof -
  have "\<bar>Math_round (meters * 100 * 10) - meters * 100 * 10\<bar> \<le> 1 / 2"
    by (rule Math_round_near)
  then have "\<bar>Math_round (meters * 100 * 10) / 10 - meters * 100\<bar> \<le> 1 / 20"
    by linarith
  then show ?thesis
    using assms unfolding formatMeasurement_def Let_def Math_round_def by auto
qed

lemma formatMeasurement_m:
  assumes "\<not> meters < 1"
  shows "\<exists>k :: int. formatMeasurement meters = Number_toString (of_int k / 100) @ '' m''
           \<and> \<bar>of_int k / 100 - meters\<bar> \<le> 1 / 200"
proof -
  have "\<bar>Math_round (meters * 100) - meters * 100\<bar> \<le> 1 / 2"
    by (rule Math_round_near)
  then have "\<bar>Math_round (meters * 100) / 100 - meters\<bar> \<le> 1 / 200"
    by linarith
  then show ?thesis
    using assms unfolding formatMeasurement_def Let_def Math_round_def by auto
qed

text \<open>
  C5. Below one metre \<open>formatMeasurement\<close> prints, with the unit \<open>cm\<close>, a number of
  tenths of a centimetre that is nearest to the value (within \<open>0.05 cm\<close>); from one metre
  on it prints, with the unit \<open>m\<close>, a number of hundredths of a metre that is nearest to
  the value (within \<open>0.005 m\<close>). The three examples of the specification come out as
  \<open>50 cm\<close>, \<open>2.35 m\<close> and \<open>99.9 cm\<close>.
\<close>

theorem formatMeasurement_units:
  "(if meters < 1
    then \<exists>k :: int. formatMeasurement meters = Number_toString (of_int k / 10) @ '' cm''
           \<and> \<bar>of_int k / 10 - meters * 100\<bar> \<le> 1 / 20
    else \<exists>k :: int. formatMeasurement meters = Number_toString (of_int k / 100) @ '' m''
           \<and> \<bar>of_int k / 100 - meters\<bar> \<le> 1 / 200)
   \<and> formatMeasurement 0.5 = ''50 cm''
   \<and> formatMeasurement 2.345 = ''2.35 m''
   \<and> formatMeasurement 0.999 = ''99.9 cm''"
proof (cases "meters < 1")
  case True
  with formatMeasurement_cm [of meters] formatMeasurement_half formatMeasurement_2345
    formatMeasurement_0999
  show ?thesis by simp
next
  case False
  with formatMeasurement_m [of meters] formatMeasurement_half formatMeasurement_2345
    formatMeasurement_0999
  show ?thesis by simp
qed

theorem formatMeasurement_units_witness:
  "(0.25 :: real) < 1
   \<and> (\<exists>k :: int. formatMeasurement 0.25 = Number_toString (of_int k / 10) @ '' cm''
           \<and> \<bar>of_int k / 10 - 0.25 * 100\<bar> \<le> (1 / 20 :: real))
   \<and> \<not> (3.14159 :: real) < 1
   \<and> (\<exists>k :: int. formatMeasurement 3.14159 = Number_toString (of_int k / 100) @ '' m''
           \<and> \<bar>of_int k / 100 - 3.14159\<bar> \<le> (1 / 200 :: real))"
proof -
  have a: "(0.25 :: real) < 1" and b: "\<not> (3.14159 :: real) < 1" by simp_all
  from formatMeasurement_units [of "0.25"] a
  have "\<exists>k :: int. formatMeasurement 0.25 = Number_toString (of_int k / 10) @ '' cm''
           \<and> \<bar>of_int k / 10 - 0.25 * 100\<bar> \<le> (1 / 20 :: real)"
    by (simp only: if_True)
  moreover from formatMeasurement_units [of "3.14159"] b
  have "\<exists>k :: int. formatMeasurement 3.14159 = Number_toString (of_int k / 100) @ '' m''
           \<and> \<bar>of_int k / 100 - 3.14159\<bar> \<le> (1 / 200 :: real)"
    by (simp only: if_False)
  ultimately show ?thesis using a b by blast
qed

subsection \<open>The drawing handlers\<close>

lemma calculateDistance_less:
  "calculateDistance x1 y1 x2 y2 < t
   \<longleftrightarrow> 0 < t \<and> (x2 - x1) * (x2 - x1) + (y2 - y1) * (y2 - y1) < t * t"
proof -
  define d where "d = (x2 - x1) * (x2 - x1) + (y2 - y1) * (y2 - y1)"
  have d: "0 \<le> d" by (simp add: d_def)
  have "sqrt d < t \<longleftrightarrow> 0 < t \<and> d < t * t"
  proof (cases "0 < t")
    case True
    then have "sqrt d < t \<longleftrightarrow> sqrt d < sqrt (t * t)" by simp
    also have "\<dots> \<longleftrightarrow> d < t * t" by (rule real_sqrt_less_iff)
    finally show ?thesis using True by simp
  next
    case False
    moreover have "0 \<le> sqrt d" using d by simp
    ultimately show ?thesis by linarith
  qed
  then show ?thesis by (simp add: calculateDistance_def Let_def d_def)
qed

lemma calculateDistance_eq_15:
  "calculateDistance x1 y1 x2 y2 = 15
   \<longleftrightarrow> (x2 - x1) * (x2 - x1) + (y2 - y1) * (y2 - y1) = 225"
proof -
  define d where "d = (x2 - x1) * (x2 - x1) + (y2 - y1) * (y2 - y1)"
  have "sqrt d = 15 \<longleftrightarrow> sqrt d = sqrt 225" by simp
  also have "\<dots> \<longleftrightarrow> d = 225" by (rule real_sqrt_eq_iff)
  finally show ?thesis by (simp add: calculateDistance_def Let_def d_def)
qed

text \<open>
  Two points whose coordinates are multiples of a grid size of 10 or 20 are never exactly
  15 apart.
\<close>

lemma grid_distance_not_15:
  assumes "g = 10 \<or> g = 20"
    and "x1 = of_int a * g" and "y1 = of_int b * g"
    and "x2 = of_int c * g" and "y2 = of_int d * g"
  shows "calculateDistance x1 y1 x2 y2 \<noteq> 15"
proof
  assume "calculateDistance x1 y1 x2 y2 = 15"
  then have e: "(x2 - x1) * (x2 - x1) + (y2 - y1) * (y2 - y1) = 225"
    by (simp only: calculateDistance_eq_15)
  define k where "k = (c - a) * (c - a) + (d - b) * (d - b)"
  have s: "(x2 - x1) * (x2 - x1) + (y2 - y1) * (y2 - y1) = g * g * of_int k"
    by (simp add: assms(2-5) k_def algebra_simps)
  from assms(1) show False
  proof
    assume "g = 10"
    with e s have "(of_int (100 * k) :: real) = of_int 225" by simp
    then have "100 * k = 225" by (simp only: of_int_eq_iff)
    then show False by presburger
  next
    assume "g = 20"
    with e s have "(of_int (400 * k) :: real) = of_int 225" by simp
    then have "400 * k = 225" by (simp only: of_int_eq_iff)
    then show False by presburger
  qed
qed

lemma calculateDistance_horizontal: "calculateDistance x1 y1 x2 y1 = \<bar>x2 - x1\<bar>"
  by (simp add: calculateDistance_def Let_def)

lemma isPointClose_code [code]:
  "isPointClose x1 y1 x2 y2 threshold
   \<longleftrightarrow> 0 < threshold
       \<and> (x2 - x1) * (x2 - x1) + (y2 - y1) * (y2 - y1) < threshold * threshold"
  by (simp add: isPointClose_def calculateDistance_less)

lemma mousedown_code [code]:
  "mousedown now ex ey s =
     (if \<not> isDrawingMode s then Inr s
      else (let px = snapToGridCoordinate s ex; py = snapToGridCoordinate s ey
            in if drawingTool s = ''rectangle''
               then (if roomStartPoint s = None
                     then Inr (s\<lparr>roomStartPoint := Some \<lparr>x = px, y = py\<rparr>,
                                 tempRect := Some (px, py, 0, 0)\<rparr>)
                     else Inr s)
               else if drawingTool s = ''line''
               then (if length (linePoints s) = 0
                     then Inr (s\<lparr>linePoints := [\<lparr>x = px, y = py\<rparr>],
                                 lineStartPoint := Some \<lparr>x = px, y = py\<rparr>\<rparr>)
                     else (case lineStartPoint s of
                             None \<Rightarrow> Inl TypeError
                           | Some start \<Rightarrow>
                               if isPointClose px py (x start) (y start) 15
                               then completeLineRoom now s
                               else (let newPoint = \<lparr>x = px, y = py\<rparr>;
                                         lastPoint = last (linePoints s)
                                     in if length (linePoints s) > 0
                                           \<and> isPointClose (x lastPoint) (y lastPoint) px py 15
                                        then Inr s
                                        else Inr (s\<lparr>linePoints := linePoints s @ [newPoint]\<rparr>))))
               else Inr s))"
  unfolding mousedown_def isPointClose_def by (rule refl)

lemma snap_163: "snapToGridCoordinate pressed_editor 163 = 160"
  by (simp add: snapToGridCoordinate_def pressed_editor_def drawing_editor_def
      initial_editor_def Math_round_def)

lemma snap_138: "snapToGridCoordinate pressed_editor 138 = 140"
  by (simp add: snapToGridCoordinate_def pressed_editor_def drawing_editor_def
      initial_editor_def Math_round_def)

lemma snap_110: "snapToGridCoordinate pressed_editor 110 = 120"
  by (simp add: snapToGridCoordinate_def pressed_editor_def drawing_editor_def
      initial_editor_def Math_round_def)

text \<open>
  C2. When the pointer is released during a rectangle drag that started at \<open>(x1, y1)\<close>,
  with \<open>(x2, y2)\<close> the snapped point of release: if both \<open>|x2 - x1|\<close> and \<open>|y2 - y1|\<close>
  exceed 20, one room is appended, with corner \<open>(min x1 x2, min y1 y2)\<close> and extent
  \<open>|x2 - x1|\<close> by \<open>|y2 - y1|\<close>; otherwise the list of rooms is unchanged and the draft
  (start point, temporary rectangle, size label) is dropped. No toast is shown either way.
\<close>

theorem rectangle_commit:
  assumes "isDrawingMode s" and "drawingTool s = ''rectangle''"
    and "roomStartPoint s = Some \<lparr>x = x1, y = y1\<rparr>" and "tempRect s = Some r"
    and "x2 = snapToGridCoordinate s ex" and "y2 = snapToGridCoordinate s ey"
  shows "if \<bar>x2 - x1\<bar> > 20 \<and> \<bar>y2 - y1\<bar> > 20
         then rooms (mouseup now ex ey s)
              = rooms s @ [\<lparr>room_id = ''room_'' @ string_of_nat now,
                             shape = Rectangle (min x1 x2) (min y1 y2) \<bar>x2 - x1\<bar> \<bar>y2 - y1\<bar>,
                             name = ''New Room'', status = ''good'', sensorData = None,
                             deviceId = None\<rparr>]
              \<and> toasts (mouseup now ex ey s) = toasts s
         else rooms (mouseup now ex ey s) = rooms s
              \<and> roomStartPoint (mouseup now ex ey s) = None
              \<and> tempRect (mouseup now ex ey s) = None
              \<and> roomMeasurementText (mouseup now ex ey s) = None
              \<and> toasts (mouseup now ex ey s) = toasts s"
  using assms by (simp add: mouseup_def Let_def)

theorem rectangle_commit_witness:
  "isDrawingMode pressed_editor \<and> drawingTool pressed_editor = ''rectangle''
   \<and> roomStartPoint pressed_editor = Some \<lparr>x = 100, y = 100\<rparr>
   \<and> tempRect pressed_editor = Some (100, 100, 0, 0)
   \<and> 160 = snapToGridCoordinate pressed_editor 163
   \<and> 140 = snapToGridCoordinate pressed_editor 138
   \<and> 120 = snapToGridCoordinate pressed_editor 110
   \<and> rooms (mouseup 7 163 138 pressed_editor)
       = [\<lparr>room_id = ''room_'' @ string_of_nat 7, shape = Rectangle 100 100 60 40,
           name = ''New Room'', status = ''good'', sensorData = None, deviceId = None\<rparr>]
   \<and> rooms (mouseup 7 110 138 pressed_editor) = []"
proof -
  have h: "isDrawingMode pressed_editor" "drawingTool pressed_editor = ''rectangle''"
    "roomStartPoint pressed_editor = Some \<lparr>x = 100, y = 100\<rparr>"
    "tempRect pressed_editor = Some (100, 100, 0, 0)"
    by (simp_all add: pressed_editor_def drawing_editor_def initial_editor_def)
  have r: "rooms pressed_editor = []"
    by (simp add: pressed_editor_def drawing_editor_def initial_editor_def)
  from rectangle_commit [OF h snap_163 [symmetric] snap_138 [symmetric], of 7]
    rectangle_commit [OF h snap_110 [symmetric] snap_138 [symmetric], of 7]
  show ?thesis using h r snap_163 snap_138 snap_110 by simp
qed

text \<open>
  C3. With fewer than three points placed, \<open>completeLineRoom\<close> changes nothing but the
  toasts, to which it adds the warning; so does a click of the line tool that lands
  within the closing distance of the start point: no room is created, and the points and
  the start point stay as they were.
\<close>

theorem close_rejected_below_three_points:
  assumes "length (linePoints s) < 3"
  shows "completeLineRoom now s
           = Inr (s\<lparr>toasts := toasts s
                      @ [(''Need at least 3 points to create a room'', ''warning'')]\<rparr>)
         \<and> (isDrawingMode s \<and> drawingTool s = ''line'' \<and> linePoints s \<noteq> []
              \<and> lineStartPoint s = Some start
              \<and> isPointClose (snapToGridCoordinate s ex) (snapToGridCoordinate s ey)
                   (x start) (y start) 15
            \<longrightarrow> (\<exists>s'. mousedown now ex ey s = Inr s'
                       \<and> s' = s\<lparr>toasts := toasts s
                                 @ [(''Need at least 3 points to create a room'', ''warning'')]\<rparr>
                       \<and> rooms s' = rooms s \<and> linePoints s' = linePoints s
                       \<and> lineStartPoint s' = lineStartPoint s
                       \<and> toasts s' = toasts s
                            @ [(''Need at least 3 points to create a room'', ''warning'')]))"
  using assms by (simp add: completeLineRoom_def mousedown_def Let_def)

theorem close_rejected_below_three_points_witness:
  "length (linePoints two_point_editor) < 3
   \<and> isDrawingMode two_point_editor \<and> drawingTool two_point_editor = ''line''
   \<and> linePoints two_point_editor \<noteq> []
   \<and> lineStartPoint two_point_editor = Some \<lparr>x = 0, y = 0\<rparr>
   \<and> isPointClose (snapToGridCoordinate two_point_editor 4) (snapToGridCoordinate two_point_editor 3)
        (x \<lparr>x = 0, y = 0\<rparr>) (y \<lparr>x = 0, y = 0\<rparr>) 15
   \<and> (\<exists>s'. mousedown 7 4 3 two_point_editor = Inr s'
          \<and> rooms s' = [] \<and> linePoints s' = [\<lparr>x = 0, y = 0\<rparr>, \<lparr>x = 100, y = 0\<rparr>]
          \<and> lineStartPoint s' = Some \<lparr>x = 0, y = 0\<rparr>
          \<and> toasts s' = [(''Need at least 3 points to create a room'', ''warning'')])"
proof -
  have h: "length (linePoints two_point_editor) < 3"
    by (simp add: two_point_editor_def initial_editor_def)
  have f: "isDrawingMode two_point_editor" "drawingTool two_point_editor = ''line''"
    "linePoints two_point_editor = [\<lparr>x = 0, y = 0\<rparr>, \<lparr>x = 100, y = 0\<rparr>]"
    "lineStartPoint two_point_editor = Some \<lparr>x = 0, y = 0\<rparr>"
    "rooms two_point_editor = []" "toasts two_point_editor = []"
    by (simp_all add: two_point_editor_def initial_editor_def)
  have c: "isPointClose (snapToGridCoordinate two_point_editor 4)
             (snapToGridCoordinate two_point_editor 3) (x \<lparr>x = 0, y = 0\<rparr>) (y \<lparr>x = 0, y = 0\<rparr>) 15"
    by (simp add: isPointClose_code snapToGridCoordinate_def two_point_editor_def
        initial_editor_def Math_round_def)
  from close_rejected_below_three_points [OF h, of 7 "\<lparr>x = 0, y = 0\<rparr>" 4 3] f c h
  show ?thesis by simp
qed

lemma snap_100: "snapToGridCoordinate drawing_editor 100 = 100"
  by (simp add: snapToGridCoordinate_def drawing_editor_def initial_editor_def Math_round_def)

lemma snap_160: "snapToGridCoordinate pressed_editor 160 = 160"
  by (simp add: snapToGridCoordinate_def pressed_editor_def drawing_editor_def
      initial_editor_def Math_round_def)

lemma snap_140: "snapToGridCoordinate pressed_editor 140 = 140"
  by (simp add: snapToGridCoordinate_def pressed_editor_def drawing_editor_def
      initial_editor_def Math_round_def)

lemma measurementText_60_40: "measurementText 60 40 = ''1.2 m '' @ [CHR 0xD7] @ '' 80 cm''"
  by code_simp

lemma mousedown_100_100: "mousedown now 100 100 drawing_editor = Inr pressed_editor"
  using snap_100
  by (simp add: mousedown_def pressed_editor_def drawing_editor_def initial_editor_def)

lemma mousemove_160_140:
  "mousemove 160 140 pressed_editor
   = pressed_editor\<lparr>tempRect := Some (100, 100, 60, 40),
                     roomMeasurementText := Some (measurementText 60 40)\<rparr>"
  using snap_160 snap_140
  by (simp add: mousemove_def pressed_editor_def drawing_editor_def initial_editor_def)

lemma mouseup_160_140:
  "rooms (mouseup now 160 140 (mousemove 160 140 pressed_editor))
   = [\<lparr>room_id = ''room_'' @ string_of_nat now, shape = Rectangle 100 100 60 40,
       name = ''New Room'', status = ''good'', sensorData = None, deviceId = None\<rparr>]"
proof -
  let ?m = "pressed_editor\<lparr>tempRect := Some (100, 100, 60, 40),
                           roomMeasurementText := Some (measurementText 60 40)\<rparr>"
  have f: "isDrawingMode ?m" "drawingTool ?m = ''rectangle''"
    "roomStartPoint ?m = Some \<lparr>x = 100, y = 100\<rparr>" "tempRect ?m = Some (100, 100, 60, 40)"
    "rooms ?m = []"
    by (simp_all add: pressed_editor_def drawing_editor_def initial_editor_def)
  have g: "snapToGridCoordinate ?m 160 = 160" "snapToGridCoordinate ?m 140 = 140"
    by (simp_all add: snapToGridCoordinate_def pressed_editor_def drawing_editor_def
        initial_editor_def Math_round_def)
  show ?thesis
    unfolding mousemove_160_140 by (simp add: mouseup_def f g)
qed

text \<open>
  C6, as stated, fails on the label: after the press at \<open>(100, 100)\<close> and the move to
  \<open>(160, 140)\<close> the size label is not \<open>1.2 m \<times> 0.8 m\<close>.
\<close>

theorem rectangle_scenario_label_counterexample:
  "mousedown 7 100 100 drawing_editor = Inr pressed_editor
   \<and> roomMeasurementText (mousemove 160 140 pressed_editor)
       \<noteq> Some (''1.2 m '' @ [CHR 0xD7] @ '' 0.8 m'')"
  by (simp add: mousedown_100_100 mousemove_160_140 measurementText_60_40)

text \<open>
  C6, amended. Pressing at \<open>(100, 100)\<close>, moving to \<open>(160, 140)\<close> and releasing there,
  with the 20 pixel grid and snapping on, commits one room with \<open>x = 100\<close>, \<open>y = 100\<close>,
  \<open>width = 60\<close>, \<open>height = 40\<close>. The size label shown during the drag is the formatted
  width and height joined by the multiplication sign, and reads \<open>1.2 m \<times> 80 cm\<close>: the
  height, 0.8 m, is below one metre and therefore printed in centimetres.
\<close>

theorem rectangle_scenario:
  "mousedown now 100 100 drawing_editor = Inr pressed_editor
   \<and> rooms (mouseup now 160 140 (mousemove 160 140 pressed_editor))
       = [\<lparr>room_id = ''room_'' @ string_of_nat now, shape = Rectangle 100 100 60 40,
           name = ''New Room'', status = ''good'', sensorData = None, deviceId = None\<rparr>]
   \<and> roomMeasurementText (mousemove 160 140 pressed_editor)
       = Some (formatMeasurement (pixelsToMeters 60) @ '' '' @ [CHR 0xD7] @ '' ''
               @ formatMeasurement (pixelsToMeters 40))
   \<and> roomMeasurementText (mousemove 160 140 pressed_editor)
       = Some (''1.2 m '' @ [CHR 0xD7] @ '' 80 cm'')"
proof -
  have "roomMeasurementText (mousemove 160 140 pressed_editor) = Some (measurementText 60 40)"
    by (simp add: mousemove_160_140)
  moreover have "measurementText 60 40
      = formatMeasurement (pixelsToMeters 60) @ '' '' @ [CHR 0xD7] @ '' ''
        @ formatMeasurement (pixelsToMeters 40)"
    by (simp add: measurementText_def)
  ultimately show ?thesis
    using measurementText_60_40 mousedown_100_100 [of now] mouseup_160_140 [of now]
    by simp
qed

lemma mousedown_line:
  assumes "isDrawingMode s" and "drawingTool s = ''line''" and "linePoints s \<noteq> []"
    and "lineStartPoint s = Some start"
    and "px = snapToGridCoordinate s ex" and "py = snapToGridCoordinate s ey"
    and "lastPoint = last (linePoints s)"
  shows "mousedown now ex ey s =
           (if calculateDistance px py (x start) (y start) < 15 then completeLineRoom now s
            else if calculateDistance (x lastPoint) (y lastPoint) px py \<ge> 15
                 then Inr (s\<lparr>linePoints := linePoints s @ [\<lparr>x = px, y = py\<rparr>]\<rparr>)
                 else Inr s)"
  using assms by (simp add: mousedown_def isPointClose_def Let_def)

lemma multiple_of_10: "frac (v / 10 :: real) = 0 \<Longrightarrow> \<exists>k :: int. v = of_int k * 10"
proof -
  assume "frac (v / 10) = 0"
  then have "v / 10 \<in> \<int>" by (simp add: frac_eq_0_iff)
  then obtain k :: int where "v / 10 = of_int k" by (rule Ints_cases)
  then have "v = of_int k * 10" by simp
  then show ?thesis ..
qed

lemma multiple_of_10_frac: "frac (of_int k * 10 / 10 :: real) = 0"
  by simp

lemma snapped_multiple_of_10:
  assumes "snapToGrid s" and "gridSize s = 10 \<or> gridSize s = 20"
  shows "\<exists>k :: int. snapToGridCoordinate s v = of_int k * 10"
  using assms(2)
proof
  assume "gridSize s = 10"
  with assms(1) have "snapToGridCoordinate s v = of_int \<lfloor>v / 10 + 1 / 2\<rfloor> * 10"
    by (simp add: snapToGridCoordinate_def Math_round_def)
  then show ?thesis ..
next
  assume "gridSize s = 20"
  with assms(1) have "snapToGridCoordinate s v = of_int (\<lfloor>v / 20 + 1 / 2\<rfloor> * 2) * 10"
    by (simp add: snapToGridCoordinate_def Math_round_def)
  then show ?thesis ..
qed

lemma snapped_on_grid:
  assumes "snapToGrid s" and "gridSize s = 10 \<or> gridSize s = 20"
  shows "on_grid 10 \<lparr>x = snapToGridCoordinate s ex, y = snapToGridCoordinate s ey\<rparr>"
proof -
  from snapped_multiple_of_10 [OF assms] obtain a b :: int
    where "snapToGridCoordinate s ex = of_int a * 10" "snapToGridCoordinate s ey = of_int b * 10"
    by metis
  then show ?thesis by (simp add: on_grid_def)
qed

text \<open>Every state that the pointer handlers reach from a state on the grid is on the grid.\<close>

lemma grid_state_initial: "grid_state initial_editor"
  by (simp add: grid_state_def initial_editor_def)

lemma grid_state_completeLineRoom:
  assumes "grid_state s" and "completeLineRoom now s = Inr s'"
  shows "grid_state s'"
  using assms
  by (auto simp: grid_state_def completeLineRoom_def Let_def split: if_splits sum.splits)

lemma grid_state_mousedown:
  assumes "grid_state s" and "mousedown now ex ey s = Inr s'"
  shows "grid_state s'"
proof -
  from assms(1) have g: "snapToGrid s" "gridSize s = 10 \<or> gridSize s = 20"
    by (simp_all add: grid_state_def)
  note p = snapped_on_grid [OF g, of ex ey]
  from assms p grid_state_completeLineRoom [OF assms(1), of now s'] show ?thesis
    by (auto simp: grid_state_def mousedown_def Let_def split: if_splits option.splits)
qed

lemma grid_state_mousemove: "grid_state s \<Longrightarrow> grid_state (mousemove ex ey s)"
  by (auto simp: grid_state_def mousemove_def Let_def split: option.splits)

lemma grid_state_mouseup: "grid_state s \<Longrightarrow> grid_state (mouseup now ex ey s)"
  by (auto simp: grid_state_def mouseup_def Let_def split: option.splits)

text \<open>
  C8. In a state on the grid, with the line tool, at least one point placed and the start
  point set, a click at snapped position \<open>(px, py)\<close> closes the polygon when its distance
  from the start point is below 15; any other click appends \<open>(px, py)\<close> exactly when its
  distance from the last point exceeds 15, and is ignored otherwise. Both tests compare
  with the same number, 15.
\<close>

theorem line_click_on_grid:
  assumes "grid_state s"
    and "isDrawingMode s" and "drawingTool s = ''line''" and "linePoints s \<noteq> []"
    and "lineStartPoint s = Some start"
    and "px = snapToGridCoordinate s ex" and "py = snapToGridCoordinate s ey"
    and "lastPoint = last (linePoints s)"
  shows "mousedown now ex ey s =
           (if calculateDistance px py (x start) (y start) < 15 then completeLineRoom now s
            else if calculateDistance (x lastPoint) (y lastPoint) px py > 15
                 then Inr (s\<lparr>linePoints := linePoints s @ [\<lparr>x = px, y = py\<rparr>]\<rparr>)
                 else Inr s)"
proof -
  from assms(1) have g: "snapToGrid s" "gridSize s = 10 \<or> gridSize s = 20"
    and all: "list_all (on_grid 10) (linePoints s)"
    by (simp_all add: grid_state_def)
  from all assms(4,8) have "on_grid 10 lastPoint"
    by (simp add: list_all_iff)
  then have "frac (x lastPoint / 10) = 0" "frac (y lastPoint / 10) = 0"
    by (simp_all add: on_grid_def)
  with multiple_of_10 [of "x lastPoint"] multiple_of_10 [of "y lastPoint"]
  obtain a b :: int where l: "x lastPoint = of_int a * 10" "y lastPoint = of_int b * 10"
    by blast
  from snapped_multiple_of_10 [OF g] assms(6,7) obtain c d :: int
    where p: "px = of_int c * 10" "py = of_int d * 10"
    by metis
  have "calculateDistance (x lastPoint) (y lastPoint) px py \<noteq> 15"
    by (rule grid_distance_not_15 [where g = 10, OF _ l p]) simp
  then have "calculateDistance (x lastPoint) (y lastPoint) px py \<ge> 15
             \<longleftrightarrow> calculateDistance (x lastPoint) (y lastPoint) px py > 15"
    by linarith
  with mousedown_line [OF assms(2-8), of now] show ?thesis by simp
qed

lemma two_point_fields:
  "grid_state two_point_editor"
  "isDrawingMode two_point_editor" "drawingTool two_point_editor = ''line''"
  "linePoints two_point_editor = [\<lparr>x = 0, y = 0\<rparr>, \<lparr>x = 100, y = 0\<rparr>]"
  "lineStartPoint two_point_editor = Some \<lparr>x = 0, y = 0\<rparr>"
  by (simp_all add: grid_state_def on_grid_def two_point_editor_def initial_editor_def)

lemma two_point_snaps:
  "snapToGridCoordinate two_point_editor 123 = 120"
  "snapToGridCoordinate two_point_editor 104 = 100"
  "snapToGridCoordinate two_point_editor 4 = 0"
  "snapToGridCoordinate two_point_editor 3 = 0"
  by (simp_all add: snapToGridCoordinate_def two_point_editor_def initial_editor_def
      Math_round_def)

theorem line_click_on_grid_witness:
  "grid_state two_point_editor
   \<and> isDrawingMode two_point_editor \<and> drawingTool two_point_editor = ''line''
   \<and> linePoints two_point_editor \<noteq> []
   \<and> lineStartPoint two_point_editor = Some \<lparr>x = 0, y = 0\<rparr>
   \<and> last (linePoints two_point_editor) = \<lparr>x = 100, y = 0\<rparr>
   \<and> snapToGridCoordinate two_point_editor 123 = 120
   \<and> snapToGridCoordinate two_point_editor 104 = 100
   \<and> snapToGridCoordinate two_point_editor 4 = 0
   \<and> mousedown 7 123 4 two_point_editor
       = Inr (two_point_editor
                \<lparr>linePoints := linePoints two_point_editor @ [\<lparr>x = 120, y = 0\<rparr>]\<rparr>)
   \<and> mousedown 7 104 4 two_point_editor = Inr two_point_editor
   \<and> mousedown 7 4 4 two_point_editor = completeLineRoom 7 two_point_editor"
proof -
  have ne: "linePoints two_point_editor \<noteq> []"
    and l: "\<lparr>x = 100, y = 0\<rparr> = last (linePoints two_point_editor)"
    and e123: "120 = snapToGridCoordinate two_point_editor 123"
    and e104: "100 = snapToGridCoordinate two_point_editor 104"
    and e4: "0 = snapToGridCoordinate two_point_editor 4"
    by (simp_all add: two_point_fields two_point_snaps)
  note t = line_click_on_grid [OF two_point_fields(1,2,3) ne two_point_fields(5)]
  have a: "mousedown 7 123 4 two_point_editor
       = Inr (two_point_editor
                \<lparr>linePoints := linePoints two_point_editor @ [\<lparr>x = 120, y = 0\<rparr>]\<rparr>)"
    using t [OF e123 e4 l, of 7] by (simp add: calculateDistance_horizontal)
  have b: "mousedown 7 104 4 two_point_editor = Inr two_point_editor"
    using t [OF e104 e4 l, of 7] by (simp add: calculateDistance_horizontal)
  have c: "mousedown 7 4 4 two_point_editor = completeLineRoom 7 two_point_editor"
    using t [OF e4 e4 l, of 7] by (simp add: calculateDistance_horizontal)
  show ?thesis
    using a b c ne l [symmetric] e123 [symmetric] e104 [symmetric] e4 [symmetric]
      two_point_fields(1,2,3,5)
    by (simp only:) simp
qed

subsection \<open>The centroid\<close>

lemma fold_add: "fold (\<lambda>p acc. acc + f p) ps (a :: real) = a + sum_list (map f ps)"
  by (induction ps arbitrary: a) simp_all

lemma js_divide_Inr: "b \<noteq> 0 \<Longrightarrow> js_divide a b = Inr (a / b)"
  by (simp add: js_divide_def)

lemma average_mean: "points \<noteq> [] \<Longrightarrow> average points = Inr (arithmetic_mean points)"
  by (simp add: average_def arithmetic_mean_def fold_add js_divide_Inr)

lemma shoelace_loop_sums:
  "shoelace_loop ps (a, mx, my) =
     (a + (\<Sum>(p, q) \<leftarrow> zip ps (tl ps). cross p q),
      mx + (\<Sum>(p, q) \<leftarrow> zip ps (tl ps). (x p + x q) * cross p q),
      my + (\<Sum>(p, q) \<leftarrow> zip ps (tl ps). (y p + y q) * cross p q))"
proof (induction ps arbitrary: a mx my)
  case Nil
  then show ?case by simp
next
  case (Cons p1 ps)
  show ?case
  proof (cases ps)
    case Nil
    then show ?thesis by simp
  next
    case (Cons p2 rest)
    with Cons.IH show ?thesis by (simp add: cross_def Let_def)
  qed
qed

lemma zip_tl_snoc:
  "ps \<noteq> [] \<Longrightarrow> zip (ps @ [h]) (tl (ps @ [h])) = zip ps (tl ps) @ [(last ps, h)]"
proof (induction ps)
  case Nil
  then show ?case by simp
next
  case (Cons p ps)
  then show ?case by (cases ps) simp_all
qed

lemma polygon_edges_snoc:
  "ps \<noteq> [] \<Longrightarrow> polygon_edges ps = zip ps (tl ps) @ [(last ps, hd ps)]"
proof (induction ps)
  case Nil
  then show ?case by simp
next
  case (Cons p ps)
  have "zip (p # ps) (ps @ [h]) = zip (p # ps) ps @ [(last (p # ps), h)]" for h
  proof (induction ps arbitrary: p)
    case Nil
    then show ?case by simp
  next
    case (Cons q qs)
    from Cons [of q] show ?case by simp
  qed
  then show ?case by (simp add: polygon_edges_def)
qed

text \<open>
  The ring that the loop runs over has the edges of the polygon, and one more edge of zero
  length when the list already repeats its first point.
\<close>

lemma closedPoints_edges:
  assumes "points \<noteq> []"
  shows "polygon_edges points = zip (closedPoints points) (tl (closedPoints points))
         \<or> polygon_edges points
             = zip (closedPoints points) (tl (closedPoints points)) @ [(hd points, hd points)]"
proof (cases "x (hd points) \<noteq> x (last points) \<or> y (hd points) \<noteq> y (last points)")
  case True
  then have "closedPoints points = points @ [hd points]" by (simp add: closedPoints_def)
  with zip_tl_snoc [OF assms, of "hd points"] polygon_edges_snoc [OF assms]
  show ?thesis by simp
next
  case False
  then have "last points = hd points" by simp
  moreover from False have "closedPoints points = points" by (simp add: closedPoints_def)
  ultimately show ?thesis using polygon_edges_snoc [OF assms] by simp
qed

lemma shoelace_loop_spec:
  assumes "points \<noteq> []"
  shows "shoelace_loop (closedPoints points) (0, 0, 0)
         = (2 * signedArea points, momentX points, momentY points)"
  using closedPoints_edges [OF assms]
  by (auto simp: shoelace_loop_sums signedArea_def momentX_def momentY_def cross_def)

lemma bounding_box_Inr:
  assumes "points \<noteq> []"
  shows "bounding_box points
         = Inr (Min (set (map x points)), Max (set (map x points)),
                Min (set (map y points)), Max (set (map y points)))"
proof -
  from assms obtain p ps where "points = p # ps" by (cases points) auto
  then show ?thesis
    by (simp add: bounding_box_def Math_min_def Math_max_def Min.set_eq_fold Max.set_eq_fold
        del: set_simps)
qed

lemma sample_loop_Some:
  "sample_loop ps bx by' cx cy t = Some p \<Longrightarrow> isPointInPolygon (x p) (y p) ps"
proof (induction ps bx by' cx cy t rule: sample_loop.induct)
  case (1 points bboxCenterX bboxCenterY centroidX centroidY t)
  from "1.prems" show ?case
    by (subst (asm) sample_loop.simps) (auto simp: Let_def split: if_splits intro: "1.IH")
qed

lemma sample_loop_None:
  "sample_loop ps bx by' cx cy t = None \<Longrightarrow> t + real n / 10 \<le> 1
   \<Longrightarrow> \<not> isPointInPolygon (bx + (cx - bx) * (t + real n / 10))
           (by' + (cy - by') * (t + real n / 10)) ps"
proof (induction ps bx by' cx cy t arbitrary: n rule: sample_loop.induct)
  case (1 points bboxCenterX bboxCenterY centroidX centroidY t)
  have t: "t \<le> 1" using "1.prems"(2) by (smt (verit) divide_nonneg_nonneg of_nat_0_le_iff)
  from "1.prems"(1) t
  have here: "\<not> isPointInPolygon (bboxCenterX + (centroidX - bboxCenterX) * t)
                 (bboxCenterY + (centroidY - bboxCenterY) * t) points"
    and rest: "sample_loop points bboxCenterX bboxCenterY centroidX centroidY (t + 1 / 10) = None"
    by (subst (asm) sample_loop.simps, simp add: Let_def split: if_splits)+
  show ?case
  proof (cases n)
    case 0
    with here show ?thesis by simp
  next
    case (Suc m)
    have e: "t + real n / 10 = (t + 1 / 10) + real m / 10" using Suc by simp
    have "(t + 1 / 10) + real m / 10 \<le> 1" using "1.prems"(2) e by simp
    from "1.IH" [OF t refl refl here rest this] show ?thesis unfolding e .
  qed
qed


lemma midpoint_loop_Some:
  "midpoint_loop points rest = Some p \<Longrightarrow> isPointInPolygon (x p) (y p) points"
  by (induction rest) (auto simp: Let_def split: if_splits)

lemma midpoint_loop_None:
  "midpoint_loop points rest = None \<Longrightarrow> (p, q) \<in> set (zip rest (tl rest @ [hd points]))
   \<Longrightarrow> \<not> isPointInPolygon ((x p + x q) / 2) ((y p + y q) / 2) points"
proof (induction rest)
  case Nil
  then show ?case by simp
next
  case (Cons p1 rest)
  from Cons.prems(1)
  have here: "\<not> isPointInPolygon
                 ((x p1 + x (case rest of [] \<Rightarrow> hd points | q # _ \<Rightarrow> q)) / 2)
                 ((y p1 + y (case rest of [] \<Rightarrow> hd points | q # _ \<Rightarrow> q)) / 2) points"
    and more: "midpoint_loop points rest = None"
    by (simp_all add: Let_def split: if_splits)
  show ?case
  proof (cases rest)
    case Nil
    with Cons.prems(2) here show ?thesis by simp
  next
    case (Cons p2 rest')
    with Cons.prems(2) have "(p, q) = (p1, p2) \<or> (p, q) \<in> set (zip rest (tl rest @ [hd points]))"
      by auto
    then show ?thesis
    proof
      assume "(p, q) = (p1, p2)"
      with here Cons show ?thesis by simp
    next
      assume "(p, q) \<in> set (zip rest (tl rest @ [hd points]))"
      with Cons.IH more show ?thesis by simp
    qed
  qed
qed

lemma sample_points_fail:
  assumes "sample_loop points (x b) (y b) (x c) (y c) 0 = None"
    and "q \<in> set (sample_points b c)"
  shows "\<not> isPointInPolygon (x q) (y q) points"
proof -
  from assms(2) obtain k where k: "k < 11"
    and q: "q = \<lparr>x = x b + (x c - x b) * (real k / 10), y = y b + (y c - y b) * (real k / 10)\<rparr>"
    by (auto simp: sample_points_def)
  from k have "0 + real k / 10 \<le> 1" by simp
  from sample_loop_None [OF assms(1) this] q show ?thesis by simp
qed

lemma edge_midpoints_fail:
  assumes "midpoint_loop points points = None" and "q \<in> set (edge_midpoints points)"
  shows "\<not> isPointInPolygon (x q) (y q) points"
  using assms midpoint_loop_None [of points points]
  by (auto simp: edge_midpoints_def polygon_edges_def)

lemma interior_search_result:
  assumes "points \<noteq> []"
  shows "\<exists>p. interior_search points (x c) (y c) = Inr p
           \<and> (isPointInPolygon (x p) (y p) points
                \<or> (p = c \<and> (\<forall>q \<in> set (search_candidates points c).
                               \<not> isPointInPolygon (x q) (y q) points)))"
proof -
  let ?b = "bbox_center points"
  have bb: "interior_search points (x c) (y c) =
     (case sample_loop points (x ?b) (y ?b) (x c) (y c) 0 of
        Some p \<Rightarrow> Inr p
      | None \<Rightarrow>
          if isPointInPolygon (x ?b) (y ?b) points then Inr ?b
          else (case midpoint_loop points points of
                  Some p \<Rightarrow> Inr p
                | None \<Rightarrow> Inr \<lparr>x = x c, y = y c\<rparr>))"
    unfolding interior_search_def bounding_box_Inr [OF assms] bbox_center_def Let_def
    by (simp del: set_map split: option.split)
  show ?thesis
  proof (cases "sample_loop points (x ?b) (y ?b) (x c) (y c) 0")
    case (Some p)
    with bb sample_loop_Some [OF Some] show ?thesis by simp
  next
    case None
    note samples = this
    show ?thesis
    proof (cases "isPointInPolygon (x ?b) (y ?b) points")
      case True
      with bb samples show ?thesis by simp
    next
      case False
      note centre = this
      show ?thesis
      proof (cases "midpoint_loop points points")
        case (Some p)
        with bb samples centre midpoint_loop_Some [OF Some] show ?thesis by simp
      next
        case None
        have "\<forall>q \<in> set (search_candidates points c). \<not> isPointInPolygon (x q) (y q) points"
          using sample_points_fail [OF samples] edge_midpoints_fail [OF None] centre
          by (auto simp: search_candidates_def)
        with bb samples centre None show ?thesis by simp
      qed
    qed
  qed
qed


lemma calculatePolygonCentroid_short:
  "length points < 3 \<Longrightarrow>
   calculatePolygonCentroid (Some points)
   = (if points = [] then Inr \<lparr>x = 0, y = 0\<rparr> else Inr (arithmetic_mean points))"
  by (auto simp: calculatePolygonCentroid_def average_mean)

lemma calculatePolygonCentroid_long:
  assumes "3 \<le> length points"
  shows "calculatePolygonCentroid (Some points)
         = (if \<bar>signedArea points\<bar> < 0.001 then average points
            else (case js_divide (momentX points) (6 * signedArea points) of
                    Inl e \<Rightarrow> Inl e
                  | Inr centroidX \<Rightarrow>
                      (case js_divide (momentY points) (6 * signedArea points) of
                         Inl e \<Rightarrow> Inl e
                       | Inr centroidY \<Rightarrow>
                           if \<not> isPointInPolygon centroidX centroidY points
                           then interior_search points centroidX centroidY
                           else Inr \<lparr>x = centroidX, y = centroidY\<rparr>)))"
proof -
  have h: "2 * signedArea points / 2 = signedArea points" by simp
  have l: "\<not> length points < 3" using assms by simp
  from assms have "points \<noteq> []" by auto
  note spec = shoelace_loop_spec [OF this]
  show ?thesis
    by (simp only: calculatePolygonCentroid_def spec Let_def option.case l if_False prod.case h)
qed

lemma calculatePolygonCentroid_flat:
  assumes "3 \<le> length points" and "\<bar>signedArea points\<bar> < 0.001"
  shows "calculatePolygonCentroid (Some points) = Inr (arithmetic_mean points)"
proof -
  from assms(1) have "points \<noteq> []" by auto
  then have "average points = Inr (arithmetic_mean points)" by (rule average_mean)
  then show ?thesis
    by (simp only: calculatePolygonCentroid_long [OF assms(1)] assms(2) if_True)
qed

lemma calculatePolygonCentroid_proper:
  assumes "3 \<le> length points" and "\<not> \<bar>signedArea points\<bar> < 0.001"
  shows "calculatePolygonCentroid (Some points)
         = (if isPointInPolygon (x (area_weighted_centroid points))
                 (y (area_weighted_centroid points)) points
            then Inr (area_weighted_centroid points)
            else interior_search points (x (area_weighted_centroid points))
                   (y (area_weighted_centroid points)))"
proof -
  from assms(2) have "6 * signedArea points \<noteq> 0" by auto
  then have d: "js_divide a (6 * signedArea points) = Inr (a / (6 * signedArea points))" for a
    by (rule js_divide_Inr)
  show ?thesis
    by (simp only: calculatePolygonCentroid_long [OF assms(1)] assms(2) if_False d sum.case)
       (simp add: area_weighted_centroid_def)
qed

text \<open>
  C9. \<open>calculatePolygonCentroid\<close> returns a point for every argument: no quotient in it has
  a zero divisor and no minimum or maximum is taken of an empty list. For \<^verbatim>\<open>null\<close> and for
  the empty list the point is \<open>(0, 0)\<close>.
\<close>

theorem calculatePolygonCentroid_total:
  "(\<exists>p. calculatePolygonCentroid arg = Inr p)
   \<and> calculatePolygonCentroid None = Inr \<lparr>x = 0, y = 0\<rparr>
   \<and> calculatePolygonCentroid (Some []) = Inr \<lparr>x = 0, y = 0\<rparr>"
proof -
  have "\<exists>p. calculatePolygonCentroid arg = Inr p"
  proof (cases arg)
    case None
    then show ?thesis by (simp add: calculatePolygonCentroid_def)
  next
    case (Some points)
    consider "length points < 3" | "3 \<le> length points" "\<bar>signedArea points\<bar> < 0.001"
      | "3 \<le> length points" "\<not> \<bar>signedArea points\<bar> < 0.001"
      by linarith
    then show ?thesis
    proof cases
      case 1
      with Some show ?thesis by (simp add: calculatePolygonCentroid_short)
    next
      case 2
      with Some show ?thesis by (simp add: calculatePolygonCentroid_flat)
    next
      case 3
      then have "points \<noteq> []" by auto
      from interior_search_result [OF this, of "area_weighted_centroid points"]
        calculatePolygonCentroid_proper [OF 3] Some
      show ?thesis by auto
    qed
  qed
  then show ?thesis by (simp add: calculatePolygonCentroid_def)
qed

lemma sample_loop_Some_member:
  "sample_loop ps bx by' cx cy t = Some p \<Longrightarrow>
   \<exists>n :: nat. t + real n / 10 \<le> 1
     \<and> p = \<lparr>x = bx + (cx - bx) * (t + real n / 10), y = by' + (cy - by') * (t + real n / 10)\<rparr>"
proof (induction ps bx by' cx cy t rule: sample_loop.induct)
  case (1 points bboxCenterX bboxCenterY centroidX centroidY t)
  from "1.prems" have t: "t \<le> 1"
    by (subst (asm) sample_loop.simps) (simp split: if_splits)
  show ?case
  proof (cases "isPointInPolygon (bboxCenterX + (centroidX - bboxCenterX) * t)
                  (bboxCenterY + (centroidY - bboxCenterY) * t) points")
    case True
    with "1.prems" t
    have "p = \<lparr>x = bboxCenterX + (centroidX - bboxCenterX) * t,
               y = bboxCenterY + (centroidY - bboxCenterY) * t\<rparr>"
      by (subst (asm) sample_loop.simps) (simp add: Let_def)
    with t have "t + real (0 :: nat) / 10 \<le> 1
      \<and> p = \<lparr>x = bboxCenterX + (centroidX - bboxCenterX) * (t + real (0 :: nat) / 10),
               y = bboxCenterY + (centroidY - bboxCenterY) * (t + real (0 :: nat) / 10)\<rparr>"
      by simp
    then show ?thesis by blast
  next
    case False
    with "1.prems" t
    have "sample_loop points bboxCenterX bboxCenterY centroidX centroidY (t + 1 / 10) = Some p"
      by (subst (asm) sample_loop.simps) (simp add: Let_def)
    from "1.IH" [OF t refl refl False this] obtain n :: nat
      where n: "t + 1 / 10 + real n / 10 \<le> 1"
        and p: "p = \<lparr>x = bboxCenterX + (centroidX - bboxCenterX) * (t + 1 / 10 + real n / 10),
                     y = bboxCenterY + (centroidY - bboxCenterY) * (t + 1 / 10 + real n / 10)\<rparr>"
      by blast
    have e: "t + 1 / 10 + real n / 10 = t + real (Suc n) / 10" by simp
    from n p show ?thesis unfolding e by blast
  qed
qed

lemma sample_points_member:
  assumes "sample_loop points (x b) (y b) (x c) (y c) 0 = Some p"
  shows "p \<in> set (sample_points b c)"
proof -
  from sample_loop_Some_member [OF assms] obtain n :: nat
    where n: "0 + real n / 10 \<le> 1"
      and p: "p = \<lparr>x = x b + (x c - x b) * (0 + real n / 10),
                   y = y b + (y c - y b) * (0 + real n / 10)\<rparr>"
    by blast
  from n have "n < 11" by simp
  with p show ?thesis by (auto simp: sample_points_def)
qed

lemma midpoint_loop_member:
  "midpoint_loop points rest = Some p \<Longrightarrow>
   \<exists>a b. (a, b) \<in> set (zip rest (tl rest @ [hd points]))
     \<and> p = \<lparr>x = (x a + x b) / 2, y = (y a + y b) / 2\<rparr>"
proof (induction rest)
  case Nil
  then show ?case by simp
next
  case (Cons p1 rest)
  show ?case
  proof (cases rest)
    case Nil
    with Cons.prems show ?thesis by (auto simp: Let_def split: if_splits)
  next
    case (Cons p2 rest')
    show ?thesis
    proof (cases "isPointInPolygon ((x p1 + x p2) / 2) ((y p1 + y p2) / 2) points")
      case True
      with Cons.prems Cons show ?thesis by (auto simp: Let_def)
    next
      case False
      with Cons.prems Cons have "midpoint_loop points rest = Some p" by (simp add: Let_def)
      from Cons.IH [OF this] Cons show ?thesis by auto
    qed
  qed
qed

lemma edge_midpoints_member:
  assumes "midpoint_loop points points = Some p"
  shows "p \<in> set (edge_midpoints points)"
  using midpoint_loop_member [OF assms]
  by (force simp: edge_midpoints_def polygon_edges_def)

lemma interior_search_member:
  assumes "points \<noteq> []"
  shows "\<exists>p. interior_search points (x c) (y c) = Inr p
           \<and> p \<in> set (c # search_candidates points c)"
proof -
  let ?b = "bbox_center points"
  have bb: "interior_search points (x c) (y c) =
     (case sample_loop points (x ?b) (y ?b) (x c) (y c) 0 of
        Some p \<Rightarrow> Inr p
      | None \<Rightarrow>
          if isPointInPolygon (x ?b) (y ?b) points then Inr ?b
          else (case midpoint_loop points points of
                  Some p \<Rightarrow> Inr p
                | None \<Rightarrow> Inr \<lparr>x = x c, y = y c\<rparr>))"
    unfolding interior_search_def bounding_box_Inr [OF assms] bbox_center_def Let_def
    by (simp del: set_map split: option.split)
  show ?thesis
  proof (cases "sample_loop points (x ?b) (y ?b) (x c) (y c) 0")
    case (Some p)
    with bb sample_points_member [OF Some] show ?thesis by (simp add: search_candidates_def)
  next
    case None
    note samples = this
    show ?thesis
    proof (cases "midpoint_loop points points")
      case (Some p)
      with bb samples edge_midpoints_member [OF Some] show ?thesis
        by (simp add: search_candidates_def)
    next
      case None
      with bb samples show ?thesis by (simp add: search_candidates_def)
    qed
  qed
qed

text \<open>
  C4. For fewer than three points \<open>calculatePolygonCentroid\<close> returns the arithmetic mean of
  the points (for no points at all, which have no mean, the origin), and so it does for
  three or more points whose signed shoelace area is below \<open>0.001\<close> in absolute value.
  Otherwise it returns the area-weighted centroid (the moment sums divided by six times
  the signed area) or, in its place, one of the points that the interior search tries.
\<close>

theorem calculatePolygonCentroid_cases:
  "(length points < 3
      \<longrightarrow> calculatePolygonCentroid (Some points)
          = Inr (if points = [] then \<lparr>x = 0, y = 0\<rparr> else arithmetic_mean points))
   \<and> (3 \<le> length points \<and> \<bar>signedArea points\<bar> < 0.001
      \<longrightarrow> calculatePolygonCentroid (Some points) = Inr (arithmetic_mean points))
   \<and> (3 \<le> length points \<and> \<not> \<bar>signedArea points\<bar> < 0.001
      \<longrightarrow> (\<exists>p. calculatePolygonCentroid (Some points) = Inr p
              \<and> p \<in> set (area_weighted_centroid points
                           # search_candidates points (area_weighted_centroid points))))"
proof -
  let ?c = "area_weighted_centroid points"
  have "\<exists>p. calculatePolygonCentroid (Some points) = Inr p
            \<and> p \<in> set (?c # search_candidates points ?c)"
    if l: "3 \<le> length points" and a: "\<not> \<bar>signedArea points\<bar> < 0.001"
  proof (cases "isPointInPolygon (x ?c) (y ?c) points")
    case True
    with calculatePolygonCentroid_proper [OF l a] show ?thesis by simp
  next
    case False
    from l have "points \<noteq> []" by auto
    from interior_search_member [OF this, of ?c] False calculatePolygonCentroid_proper [OF l a]
    show ?thesis by simp
  qed
  with calculatePolygonCentroid_short [of points] calculatePolygonCentroid_flat [of points]
  show ?thesis by simp
qed

lemma two_points: "take 2 triangle \<noteq> [] \<and> length (take 2 triangle) < 3"
  by (simp add: triangle_def)

lemma two_points_mean: "arithmetic_mean (take 2 triangle) = \<lparr>x = 50, y = 0\<rparr>"
  by (simp add: triangle_def arithmetic_mean_def)

lemma sliver_area: "3 \<le> length sliver \<and> \<bar>signedArea sliver\<bar> < 0.001"
  by (simp add: sliver_def signedArea_def polygon_edges_def cross_def)

lemma sliver_mean: "arithmetic_mean sliver = \<lparr>x = 1 / 3, y = 1 / 3000\<rparr>"
  by (simp add: sliver_def arithmetic_mean_def)

lemma triangle_area: "3 \<le> length triangle \<and> \<not> \<bar>signedArea triangle\<bar> < 0.001"
  by (simp add: triangle_def signedArea_def polygon_edges_def cross_def)

lemma triangle_centroid: "area_weighted_centroid triangle = \<lparr>x = 200 / 3, y = 100 / 3\<rparr>"
  by (simp add: triangle_def area_weighted_centroid_def signedArea_def momentX_def momentY_def
      polygon_edges_def cross_def)

lemma triangle_contains: "isPointInPolygon (200 / 3) (100 / 3) triangle"
  by (simp add: triangle_def isPointInPolygon_def Let_def)

lemma offset_triangle_area:
  "3 \<le> length offset_triangle \<and> \<not> \<bar>signedArea offset_triangle\<bar> < 0.001"
  by (simp add: offset_triangle_def signedArea_def polygon_edges_def cross_def)

lemma offset_triangle_signedArea: "signedArea offset_triangle = 200"
  by (simp add: offset_triangle_def signedArea_def polygon_edges_def cross_def)

lemma offset_triangle_centroid:
  "area_weighted_centroid offset_triangle = \<lparr>x = 100 / 3, y = 20 / 3\<rparr>"
  by (simp add: offset_triangle_def area_weighted_centroid_def signedArea_def momentX_def
      momentY_def polygon_edges_def cross_def)

lemma offset_triangle_result:
  "calculatePolygonCentroid (Some offset_triangle) = Inr \<lparr>x = 100 / 3, y = 20 / 3\<rparr>"
  by code_simp

theorem calculatePolygonCentroid_cases_witness:
  "length ([] :: point list) < 3
   \<and> calculatePolygonCentroid (Some []) = Inr \<lparr>x = 0, y = 0\<rparr>
   \<and> length (take 2 triangle) < 3
   \<and> calculatePolygonCentroid (Some (take 2 triangle)) = Inr \<lparr>x = 50, y = 0\<rparr>
   \<and> 3 \<le> length sliver \<and> \<bar>signedArea sliver\<bar> < 0.001
   \<and> calculatePolygonCentroid (Some sliver) = Inr \<lparr>x = 1 / 3, y = 1 / 3000\<rparr>
   \<and> 3 \<le> length offset_triangle \<and> \<not> \<bar>signedArea offset_triangle\<bar> < 0.001
   \<and> signedArea offset_triangle = 200
   \<and> area_weighted_centroid offset_triangle = \<lparr>x = 100 / 3, y = 20 / 3\<rparr>
   \<and> calculatePolygonCentroid (Some offset_triangle) = Inr \<lparr>x = 100 / 3, y = 20 / 3\<rparr>
   \<and> (\<exists>p. calculatePolygonCentroid (Some offset_triangle) = Inr p
          \<and> p \<in> set (area_weighted_centroid offset_triangle
                       # search_candidates offset_triangle
                           (area_weighted_centroid offset_triangle)))"
proof -
  have e: "calculatePolygonCentroid (Some []) = Inr \<lparr>x = 0, y = 0\<rparr>"
    using calculatePolygonCentroid_cases [of "[]"] by simp
  have t: "calculatePolygonCentroid (Some (take 2 triangle)) = Inr \<lparr>x = 50, y = 0\<rparr>"
    using calculatePolygonCentroid_cases [of "take 2 triangle"] two_points
    by (simp add: two_points_mean)
  have s: "calculatePolygonCentroid (Some sliver) = Inr \<lparr>x = 1 / 3, y = 1 / 3000\<rparr>"
    using calculatePolygonCentroid_cases [of sliver] sliver_area by (simp add: sliver_mean)
  have o: "\<exists>p. calculatePolygonCentroid (Some offset_triangle) = Inr p
          \<and> p \<in> set (area_weighted_centroid offset_triangle
                       # search_candidates offset_triangle
                           (area_weighted_centroid offset_triangle))"
    using calculatePolygonCentroid_cases [of offset_triangle] offset_triangle_area by blast
  from e t s o two_points sliver_area offset_triangle_area offset_triangle_signedArea
    offset_triangle_centroid offset_triangle_result
  show ?thesis by simp
qed

lemma loop_step:
  "isPointInPolygon_loop px py (p # rest) q i
   = isPointInPolygon_loop px py rest p (if ray_crosses px py p q then \<not> i else i)"
  by (simp add: ray_crosses_def Let_def)

lemma loop_append:
  "isPointInPolygon_loop px py (as @ bs) q i
   = isPointInPolygon_loop px py bs (last (q # as)) (isPointInPolygon_loop px py as q i)"
proof (induction as arbitrary: q i)
  case Nil
  then show ?case by simp
next
  case (Cons a as)
  show ?case
    unfolding append_Cons loop_step Cons.IH by simp
qed

lemma loop_negate:
  "isPointInPolygon_loop px py ps q (\<not> i) = (\<not> isPointInPolygon_loop px py ps q i)"
proof (induction ps arbitrary: q i)
  case Nil
  then show ?case by simp
next
  case (Cons p ps)
  show ?case
    unfolding loop_step using Cons.IH [of p i] Cons.IH [of p "\<not> i"] by simp
qed

text \<open>
  The quotient in \<open>isPointInPolygon\<close> is evaluated only for an edge whose ends lie on
  different sides of \<open>py\<close>; its divisor is not zero then.
\<close>

lemma ray_divisor_nonzero: "(y p_i > py) \<noteq> (y p_j > py) \<Longrightarrow> y p_j - y p_i \<noteq> 0"
  by auto

lemma ray_crosses_same: "\<not> ray_crosses px py p p"
  by (simp add: ray_crosses_def)

lemma isPointInPolygon_closed:
  assumes "points \<noteq> []"
  shows "isPointInPolygon px py (points @ [hd points]) = isPointInPolygon px py points"
proof -
  from assms obtain h rest where ps: "points = h # rest" by (cases points) auto
  let ?l = "last (h # rest)"
  let ?A = "isPointInPolygon_loop px py rest h False"
  have "isPointInPolygon px py (points @ [hd points])
        = isPointInPolygon_loop px py ((h # rest) @ [h]) h False"
    by (simp add: ps isPointInPolygon_def del: isPointInPolygon_loop.simps)
  also have "\<dots> = isPointInPolygon_loop px py [h] ?l (isPointInPolygon_loop px py (h # rest) h False)"
    by (simp only: loop_append) simp
  also have "isPointInPolygon_loop px py (h # rest) h False = ?A"
    by (simp only: loop_step ray_crosses_same if_False)
  also have "isPointInPolygon_loop px py [h] ?l ?A = (if ray_crosses px py h ?l then \<not> ?A else ?A)"
    by (simp only: loop_step isPointInPolygon_loop.simps)
  also have "\<dots> = isPointInPolygon_loop px py rest h (if ray_crosses px py h ?l then \<not> False else False)"
    using loop_negate [of px py rest h False] by simp
  also have "\<dots> = isPointInPolygon_loop px py (h # rest) ?l False"
    by (simp only: loop_step)
  also have "\<dots> = isPointInPolygon px py points"
    by (simp add: ps isPointInPolygon_def del: isPointInPolygon_loop.simps)
  finally show ?thesis .
qed

lemma polygon_edges_closed:
  assumes "points \<noteq> []"
  shows "polygon_edges (points @ [hd points]) = polygon_edges points @ [(hd points, hd points)]"
proof -
  have "polygon_edges (points @ [hd points])
        = zip (points @ [hd points]) (tl (points @ [hd points])) @ [(hd points, hd points)]"
    using assms polygon_edges_snoc [of "points @ [hd points]"] by simp
  with zip_tl_snoc [OF assms, of "hd points"] polygon_edges_snoc [OF assms]
  show ?thesis by simp
qed

lemma sums_closed:
  assumes "points \<noteq> []"
  shows "signedArea (points @ [hd points]) = signedArea points"
    and "momentX (points @ [hd points]) = momentX points"
    and "momentY (points @ [hd points]) = momentY points"
  by (simp_all add: signedArea_def momentX_def momentY_def polygon_edges_closed [OF assms]
      cross_def)

text \<open>
  C10. For three or more points with absolute signed area at least \<open>0.001\<close> whose
  area-weighted centroid passes \<open>isPointInPolygon\<close>, appending a copy of the first point
  does not change the result of \<open>calculatePolygonCentroid\<close>.
\<close>

theorem centroid_of_closed_ring:
  assumes "3 \<le> length points" and "\<not> \<bar>signedArea points\<bar> < 0.001"
    and "isPointInPolygon (x (area_weighted_centroid points))
           (y (area_weighted_centroid points)) points"
  shows "calculatePolygonCentroid (Some (points @ [hd points]))
         = calculatePolygonCentroid (Some points)"
proof -
  from assms(1) have ne: "points \<noteq> []" by auto
  let ?closed = "points @ [hd points]"
  have c: "area_weighted_centroid ?closed = area_weighted_centroid points"
    by (simp only: area_weighted_centroid_def sums_closed [OF ne])
  have l: "3 \<le> length ?closed" using assms(1) by simp
  have a: "\<not> \<bar>signedArea ?closed\<bar> < 0.001"
    using assms(2) sums_closed(1) [OF ne] by simp
  have i: "isPointInPolygon (x (area_weighted_centroid ?closed))
             (y (area_weighted_centroid ?closed)) ?closed"
    using assms(3) by (simp only: c isPointInPolygon_closed [OF ne])
  have "calculatePolygonCentroid (Some ?closed) = Inr (area_weighted_centroid ?closed)"
    by (simp only: calculatePolygonCentroid_proper [OF l a] i if_True)
  moreover have "calculatePolygonCentroid (Some points) = Inr (area_weighted_centroid points)"
    by (simp only: calculatePolygonCentroid_proper [OF assms(1,2)] assms(3) if_True)
  ultimately show ?thesis by (simp only: c)
qed

theorem centroid_of_closed_ring_witness:
  "3 \<le> length triangle \<and> \<not> \<bar>signedArea triangle\<bar> < 0.001
   \<and> isPointInPolygon (x (area_weighted_centroid triangle))
         (y (area_weighted_centroid triangle)) triangle
   \<and> calculatePolygonCentroid (Some (triangle @ [hd triangle]))
       = calculatePolygonCentroid (Some triangle)"
proof -
  have l: "3 \<le> length triangle" and a: "\<not> \<bar>signedArea triangle\<bar> < 0.001"
    using triangle_area by simp_all
  have i: "isPointInPolygon (x (area_weighted_centroid triangle))
             (y (area_weighted_centroid triangle)) triangle"
    using triangle_contains by (simp add: triangle_centroid)
  from centroid_of_closed_ring [OF l a i] l a i show ?thesis by simp
qed


lemma edge_crossed_pair [simp]: "edge_crossed px py (q, p) = ray_crosses px py p q"
  by (simp add: edge_crossed_def)

lemma spans_pair [simp]: "spans (a, b) c = ((y b > c) \<noteq> (y a > c))"
  by (simp add: spans_def)





















































end
